theory Spec2Isabelle
  imports Complex_Main "HOL-Library.Multiset" "HOL-Library.Sublist"
begin

section \<open>Shared domain types (internal/domain/entities.go)\<close>

text \<open>
  \<open>InformationType\<close>, \<open>ScanStatus\<close> and \<open>RiskLevel\<close> are Go string types: any string
  is a value of the type, and the constants below are the named ones. Strings are byte
  sequences, as in Go, so \<open>length\<close> is Go's \<open>len\<close>.
\<close>

type_synonym InformationType = string

definition InfoTypeNA :: InformationType where "InfoTypeNA = ''N/A''"
definition InfoTypeFirstName :: InformationType where "InfoTypeFirstName = ''FIRST_NAME''"
definition InfoTypeLastName :: InformationType where "InfoTypeLastName = ''LAST_NAME''"
definition InfoTypeFullName :: InformationType where "InfoTypeFullName = ''FULL_NAME''"
definition InfoTypeUsername :: InformationType where "InfoTypeUsername = ''USERNAME''"
definition InfoTypeEmailAddress :: InformationType where "InfoTypeEmailAddress = ''EMAIL_ADDRESS''"
definition InfoTypePhoneNumber :: InformationType where "InfoTypePhoneNumber = ''PHONE_NUMBER''"
definition InfoTypeSSN :: InformationType where "InfoTypeSSN = ''SSN''"
definition InfoTypeIPAddress :: InformationType where "InfoTypeIPAddress = ''IP_ADDRESS''"
definition InfoTypeMACAddress :: InformationType where "InfoTypeMACAddress = ''MAC_ADDRESS''"
definition InfoTypeAddress :: InformationType where "InfoTypeAddress = ''ADDRESS''"
definition InfoTypePostalCode :: InformationType where "InfoTypePostalCode = ''POSTAL_CODE''"

text \<open>
  \<open>float64\<close> values (confidence scores, the risk percentage) are modelled by exact
  rationals: the rounding of IEEE arithmetic is not part of the model.
\<close>

type_synonym float64 = rat

type_synonym UUID = nat

record ClassificationPattern =
  cp_ID :: UUID
  cp_InformationType :: InformationType
  cp_Pattern :: string
  cp_Description :: string
  cp_Priority :: int
  cp_IsActive :: bool
  cp_CreatedAt :: int
  cp_UpdatedAt :: int

section \<open>Library functions used by the classifier\<close>

subsection \<open>strings\<close>

text \<open>
  \<open>strings.TrimSpace\<close> and \<open>strings.ToLower\<close> on ASCII text: the six ASCII white-space
  bytes are trimmed and the letters A to Z are lowered; bytes from 0x80 on are kept as they
  are. \<open>strings.Contains\<close> is the substring test.
\<close>

definition isSpace :: "char \<Rightarrow> bool" where
  "isSpace c = (c = CHR 0x09 \<or> c = CHR 0x0A \<or> c = CHR 0x0B \<or> c = CHR 0x0C
                \<or> c = CHR 0x0D \<or> c = CHR 0x20)"

definition TrimSpace :: "string \<Rightarrow> string" where
  "TrimSpace s = rev (dropWhile isSpace (rev (dropWhile isSpace s)))"

definition toLowerByte :: "char \<Rightarrow> char" where
  "toLowerByte c = (let n = (of_char c :: nat) in
                      if 65 \<le> n \<and> n \<le> 90 then char_of (n + 32) else c)"

definition ToLower :: "string \<Rightarrow> string" where
  "ToLower s = map toLowerByte s"

primrec Contains :: "string \<Rightarrow> string \<Rightarrow> bool" where
  "Contains [] substr = (substr = [])"
| "Contains (c # s) substr = (prefix substr (c # s) \<or> Contains s substr)"

subsection \<open>regexp\<close>

text \<open>
  A compiled \<open>*regexp.Regexp\<close> is represented by what it finds: the text of its leftmost
  match in a string, or \<open>None\<close> when the string holds no match. \<open>MatchString\<close> reports
  whether there is a match and \<open>FindString\<close> returns its text (the empty string when
  there is none). \<open>regexp.Compile\<close> is a parameter of the functions that call it: it
  returns the error text or the compiled expression.
\<close>

type_synonym regex = "string \<Rightarrow> string option"

type_synonym regexp_Compile = "string \<Rightarrow> string + regex"

definition MatchString :: "regex \<Rightarrow> string \<Rightarrow> bool" where
  "MatchString re s = (re s \<noteq> None)"

definition FindString :: "regex \<Rightarrow> string \<Rightarrow> string" where
  "FindString re s = (case re s of None \<Rightarrow> [] | Some m \<Rightarrow> m)"

text \<open>
  Two expressions of Go's syntax, for concrete runs: a pattern without metacharacters finds
  itself wherever it occurs, and \<open>.*\<close> finds the longest prefix without a newline.
\<close>

definition rx_literal :: "string \<Rightarrow> regex" where
  "rx_literal w s = (if Contains s w then Some w else None)"

definition rx_dot_star :: regex where
  "rx_dot_star s = Some (takeWhile (\<lambda>c. c \<noteq> CHR 0x0A) s)"

subsection \<open>sort.Slice\<close>

text \<open>
  \<open>sort.Slice\<close> is a parameter of the functions that call it, taking the \<open>less\<close> function
  on elements and the slice. Its documented contract, for a \<open>less\<close> that is a strict weak
  ordering: the result is a permutation of the slice in which no element is \<open>less\<close> than
  one before it. The documentation adds that the sort is not guaranteed to be stable.
\<close>

type_synonym 'a sort_Slice = "('a \<Rightarrow> 'a \<Rightarrow> bool) \<Rightarrow> 'a list \<Rightarrow> 'a list"

definition strict_weak_order :: "('a \<Rightarrow> 'a \<Rightarrow> bool) \<Rightarrow> bool" where
  "strict_weak_order lt \<longleftrightarrow>
     (\<forall>a. \<not> lt a a) \<and>
     (\<forall>a b c. lt a b \<and> lt b c \<longrightarrow> lt a c) \<and>
     (\<forall>a b c. \<not> lt a b \<and> \<not> lt b c \<longrightarrow> \<not> lt a c)"

definition sort_Slice_contract :: "'a sort_Slice \<Rightarrow> bool" where
  "sort_Slice_contract srt \<longleftrightarrow>
     (\<forall>lt xs. strict_weak_order lt \<longrightarrow>
        mset (srt lt xs) = mset xs \<and> sorted_wrt (\<lambda>a b. \<not> lt b a) (srt lt xs))"

text \<open>
  Two sorts that meet the contract. \<open>insertionSort\<close> moves each element left past the
  elements it is \<open>less\<close> than, so equal elements keep their order; \<open>insertionSortEarly\<close>
  moves it left past every element that is not \<open>less\<close> than it, so equal elements end up
  reversed.
\<close>

fun insert_late :: "('a \<Rightarrow> 'a \<Rightarrow> bool) \<Rightarrow> 'a \<Rightarrow> 'a list \<Rightarrow> 'a list" where
  "insert_late lt x [] = [x]"
| "insert_late lt x (y # ys) =
     (if lt x y then x # y # ys else y # insert_late lt x ys)"

definition insertionSort :: "'a sort_Slice" where
  "insertionSort lt xs = foldl (\<lambda>acc x. insert_late lt x acc) [] xs"

fun insert_early :: "('a \<Rightarrow> 'a \<Rightarrow> bool) \<Rightarrow> 'a \<Rightarrow> 'a list \<Rightarrow> 'a list" where
  "insert_early lt x [] = [x]"
| "insert_early lt x (y # ys) =
     (if lt y x then y # insert_early lt x ys else x # y # ys)"

definition insertionSortEarly :: "'a sort_Slice" where
  "insertionSortEarly lt xs = foldl (\<lambda>acc x. insert_early lt x acc) [] xs"

section \<open>The classifier (pkg/classifier/classifier.go)\<close>

record Pattern =
  InformationType :: InformationType
  Pattern :: string
  Description :: string
  Priority :: int
  regex :: regex

record Classifier =
  patterns :: "Pattern list"

record MatchResult =
  mr_InformationType :: InformationType
  ConfidenceScore :: float64
  MatchedPatterns :: "string list"

text \<open>The loop of \<open>SetPatterns\<close> that compiles each rule, with its accumulator.\<close>

fun compile_loop ::
  "regexp_Compile \<Rightarrow> ClassificationPattern list \<Rightarrow> Pattern list \<Rightarrow> string + Pattern list"
where
  "compile_loop rc [] compiled = Inr compiled"
| "compile_loop rc (p # ps) compiled =
     (case rc (cp_Pattern p) of
        Inl err \<Rightarrow>
          Inl (''failed to compile regex pattern '' @ [CHR 0x27] @ cp_Pattern p
               @ [CHR 0x27] @ '': '' @ err)
      | Inr re \<Rightarrow>
          compile_loop rc ps
            (compiled @ [\<lparr>InformationType = cp_InformationType p, Pattern = cp_Pattern p,
                          Description = cp_Description p, Priority = cp_Priority p,
                          regex = re\<rparr>]))"

text \<open>
  \<open>SetPatterns\<close> returns the error (\<open>None\<close> for Go's \<open>nil\<close>) and the classifier after
  the call.
\<close>

definition SetPatterns ::
  "Pattern sort_Slice \<Rightarrow> regexp_Compile \<Rightarrow> Classifier \<Rightarrow> ClassificationPattern list
   \<Rightarrow> string option \<times> Classifier"
where
  "SetPatterns sort_Slice rc c pats =
     (case compile_loop rc pats [] of
        Inl err \<Rightarrow> (Some err, c)
      | Inr compiled \<Rightarrow>
          (None, c\<lparr>patterns := sort_Slice (\<lambda>a b. Priority a > Priority b) compiled\<rparr>))"

definition NewClassifier ::
  "Pattern sort_Slice \<Rightarrow> regexp_Compile \<Rightarrow> ClassificationPattern list \<Rightarrow> string + Classifier"
where
  "NewClassifier sort_Slice rc pats =
     (case SetPatterns sort_Slice rc \<lparr>patterns = []\<rparr> pats of
        (Some err, _) \<Rightarrow> Inl err
      | (None, c) \<Rightarrow> Inr c)"

definition commonWords :: "string list" where
  "commonWords = [''id'', ''name'', ''number'', ''date'', ''time'', ''status'', ''type'']"

text \<open>The loop over \<open>commonWords\<close>, which stops at the first word found.\<close>

fun commonWordsPenalty :: "string \<Rightarrow> string list \<Rightarrow> float64" where
  "commonWordsPenalty columnName [] = 0"
| "commonWordsPenalty columnName (word # ws) =
     (if Contains columnName word \<and> length columnName < 10 then 1 / 10
      else commonWordsPenalty columnName ws)"

definition calculateConfidenceScore :: "string \<Rightarrow> Pattern \<Rightarrow> float64" where
  "calculateConfidenceScore columnName pat =
     (let baseScore = of_int (Priority pat) / 100;
          exactMatch =
            (if MatchString (regex pat) columnName
             then (if FindString (regex pat) columnName = columnName then 2 / 10 else 1 / 10)
             else 0);
          penalty = commonWordsPenalty columnName commonWords;
          finalScore = baseScore + exactMatch - penalty;
          finalScore = (if finalScore > 1 then 1 else finalScore);
          finalScore = (if finalScore < 0 then 0 else finalScore)
      in finalScore)"

type_synonym match = "Pattern \<times> float64"

text \<open>The loop of \<open>ClassifyColumn\<close> over the snapshot, with its accumulator.\<close>

fun collect_matches :: "Pattern list \<Rightarrow> string \<Rightarrow> match list \<Rightarrow> match list" where
  "collect_matches [] cleanName matches = matches"
| "collect_matches (pat # ps) cleanName matches =
     (if MatchString (regex pat) cleanName
      then collect_matches ps cleanName
             (matches @ [(pat, calculateConfidenceScore cleanName pat)])
      else collect_matches ps cleanName matches)"

definition noMatch :: MatchResult where
  "noMatch = \<lparr>mr_InformationType = InfoTypeNA, ConfidenceScore = 0, MatchedPatterns = []\<rparr>"

text \<open>
  \<open>sort.Slice\<close> sorts in place, so the sorted slice is as long as \<open>matches\<close> and
  \<open>matches[0]\<close> exists after the sort.
\<close>

definition ClassifyColumn :: "match sort_Slice \<Rightarrow> Classifier \<Rightarrow> string \<Rightarrow> MatchResult" where
  "ClassifyColumn sort_Slice c columnName =
     (if columnName = [] then noMatch
      else
        let cleanName = ToLower (TrimSpace columnName);
            matches = collect_matches (patterns c) cleanName []
        in if length matches = 0 then noMatch
           else
             let sorted = sort_Slice (\<lambda>a b. snd a > snd b) matches;
                 bestMatch = sorted ! 0
             in \<lparr>mr_InformationType = InformationType (fst bestMatch),
                 ConfidenceScore = snd bestMatch,
                 MatchedPatterns = map (\<lambda>m. Pattern (fst m)) sorted\<rparr>)"

section \<open>The classification service (internal/service, classification)\<close>

text \<open>
  The service holds the matcher (\<open>None\<close> for Go's \<open>nil\<close>). Its mutex only guards the
  read and the write of that field, which the sequential model does as single steps.
\<close>

record ClassificationService =
  matcher :: "Classifier option"

definition refreshClassifier ::
  "Pattern sort_Slice \<Rightarrow> regexp_Compile \<Rightarrow> ClassificationService
   \<Rightarrow> ClassificationPattern list \<Rightarrow> string option \<times> ClassificationService"
where
  "refreshClassifier sort_Slice rc s pats =
     (case NewClassifier sort_Slice rc pats of
        Inl err \<Rightarrow> (Some (''failed to prepare classifier: '' @ err), s)
      | Inr m \<Rightarrow> (None, s\<lparr>matcher := Some m\<rparr>))"

definition service_ClassifyColumn ::
  "match sort_Slice \<Rightarrow> ClassificationService \<Rightarrow> string
   \<Rightarrow> InformationType \<times> float64 \<times> string list"
where
  "service_ClassifyColumn sort_Slice s columnName =
     (case matcher s of
        None \<Rightarrow> (InfoTypeNA, 0, [])
      | Some m \<Rightarrow>
          let res = ClassifyColumn sort_Slice m columnName
          in (mr_InformationType res, ConfidenceScore res, MatchedPatterns res))"

section \<open>Scan results and their store\<close>

type_synonym ScanStatus = string

definition ScanStatusPending :: ScanStatus where "ScanStatusPending = ''pending''"
definition ScanStatusRunning :: ScanStatus where "ScanStatusRunning = ''running''"
definition ScanStatusCompleted :: ScanStatus where "ScanStatusCompleted = ''completed''"
definition ScanStatusFailed :: ScanStatus where "ScanStatusFailed = ''failed''"
definition ScanStatusCancelled :: ScanStatus where "ScanStatusCancelled = ''cancelled''"

type_synonym RiskLevel = string


text \<open>Instants are counted in milliseconds.\<close>

type_synonym Time = int

text \<open>
  A Go map from information type to count is an association list with distinct keys; the
  order of the list is the order in which \<open>range\<close> visits the map, which Go leaves open.
\<close>

type_synonym counts = "(InformationType \<times> int) list"


record ColumnResult =
  ColumnName :: string
  DataType :: string
  cr_InformationType :: InformationType
  cr_ConfidenceScore :: float64
  cr_MatchedPatterns :: "string list"
  IsNullable :: bool
  DefaultValue :: "string option"

record TableResult =
  TableName :: string
  Columns :: "ColumnResult list"

record SchemaResult =
  SchemaName :: string
  Tables :: "TableResult list"

record ScanSummary =
  TotalSchemas :: int
  TotalTables :: int
  TotalColumns :: int
  ClassifiedColumns :: int
  InformationTypesCounts :: counts
  RiskLevel :: RiskLevel
  DurationMilliseconds :: int

record ScanResult =
  sr_ID :: UUID
  DatabaseID :: UUID
  StartedAt :: Time
  CompletedAt :: "Time option"
  Status :: ScanStatus
  ErrorMessage :: string
  Schemas :: "SchemaResult list"
  Summary :: ScanSummary

record DatabaseConnection =
  dc_ID :: UUID
  Host :: string
  Port :: int
  Username :: string
  EncryptedPassword :: string
  DatabaseName :: string
  dc_Description :: string
  CreatedAt :: Time
  UpdatedAt :: Time
  LastScannedAt :: "Time option"
  IsActive :: bool

record MySQLColumnInfo =
  ci_ColumnName :: string
  ci_DataType :: string
  ci_IsNullable :: bool
  ci_DefaultValue :: "string option"
  ColumnKey :: string

record MySQLTableInfo =
  ti_SchemaName :: string
  ti_TableName :: string
  ti_Columns :: "MySQLColumnInfo list"

text \<open>
  The state the scan service works on: the two metadata tables, keyed by id, and the
  number of connection pools to the scanned server that are open.
\<close>

record System =
  scan_results :: "UUID \<rightharpoonup> ScanResult"
  database_connections :: "UUID \<rightharpoonup> DatabaseConnection"
  target_sessions :: nat





subsection \<open>ScanResultRepository (internal/repository/scan_result_repository.go)\<close>

text \<open>
  A row of \<open>scan_results\<close> is the \<open>ScanResult\<close> it encodes, so reading a row back
  cannot fail to parse. Each function takes the driver's fault for its statement. The
  number of affected rows is the number of rows with the given id.
\<close>


definition ScanRepo_GetByID :: "string option \<Rightarrow> UUID \<Rightarrow> System \<Rightarrow> string + ScanResult" where
  "ScanRepo_GetByID fault rid st =
     (case fault of
        Some err \<Rightarrow> Inl (''failed to scan result: '' @ err)
      | None \<Rightarrow>
          (case scan_results st rid of
             None \<Rightarrow> Inl ''scan result not found''
           | Some row \<Rightarrow> Inr row))"

definition ScanRepo_Update ::
  "string option \<Rightarrow> ScanResult \<Rightarrow> System \<Rightarrow> string option \<times> System" where
  "ScanRepo_Update fault result st =
     (case fault of
        Some err \<Rightarrow> (Some (''failed to update scan result: '' @ err), st)
      | None \<Rightarrow>
          (case scan_results st (sr_ID result) of
             None \<Rightarrow> (Some ''scan result not found'', st)
           | Some row \<Rightarrow>
               (None, st\<lparr>scan_results := (scan_results st)(sr_ID result \<mapsto> result)\<rparr>)))"

definition ScanRepo_UpdateStatus ::
  "string option \<Rightarrow> Time \<Rightarrow> UUID \<Rightarrow> ScanStatus \<Rightarrow> string \<Rightarrow> System
   \<Rightarrow> string option \<times> System"
where
  "ScanRepo_UpdateStatus fault now rid status errorMessage st =
     (let completedAt =
            (if status = ScanStatusCompleted \<or> status = ScanStatusFailed
                \<or> status = ScanStatusCancelled
             then Some now else None)
      in case fault of
           Some err \<Rightarrow> (Some (''failed to update scan status: '' @ err), st)
         | None \<Rightarrow>
             (case scan_results st rid of
                None \<Rightarrow> (Some ''scan result not found'', st)
              | Some row \<Rightarrow>
                  (None, st\<lparr>scan_results := (scan_results st)
                     (rid \<mapsto> row\<lparr>Status := status, CompletedAt := completedAt,
                                 ErrorMessage := errorMessage\<rparr>)\<rparr>)))"

subsection \<open>DatabaseConnectionRepository\<close>


definition ConnRepo_UpdateLastScannedAt ::
  "string option \<Rightarrow> Time \<Rightarrow> UUID \<Rightarrow> Time \<Rightarrow> System \<Rightarrow> string option \<times> System" where
  "ConnRepo_UpdateLastScannedAt fault now rid scannedAt st =
     (case fault of
        Some err \<Rightarrow> (Some (''failed to update last scanned timestamp: '' @ err), st)
      | None \<Rightarrow>
          (case database_connections st rid of
             None \<Rightarrow> (Some ''database connection not found'', st)
           | Some row \<Rightarrow>
               (None, st\<lparr>database_connections := (database_connections st)
                  (rid \<mapsto> row\<lparr>LastScannedAt := Some scannedAt, UpdatedAt := now\<rparr>)\<rparr>)))"

subsection \<open>MySQLInspector (internal/infrastructure/database/mysql_inspector.go)\<close>








section \<open>The scan service (internal/service/scan_service.go)\<close>














text \<open>\<open>GetScanHistory\<close>, over the store's \<open>GetByDatabaseID\<close>.\<close>

definition GetScanHistory ::
  "(UUID \<Rightarrow> int \<Rightarrow> string + ScanResult list) \<Rightarrow> UUID \<Rightarrow> int \<Rightarrow> string + ScanResult list"
where
  "GetScanHistory GetByDatabaseID databaseID limit =
     (let limit = (if limit \<le> 0 then 10 else limit)
      in case GetByDatabaseID databaseID limit of
           Inl err \<Rightarrow> Inl (''failed to get scan history: '' @ err)
         | Inr results \<Rightarrow> Inr results)"

definition CancelScan ::
  "string option \<Rightarrow> string option \<Rightarrow> Time \<Rightarrow> UUID \<Rightarrow> System \<Rightarrow> string option \<times> System"
where
  "CancelScan fault_get fault_write now scanID st =
     (case ScanRepo_GetByID fault_get scanID st of
        Inl err \<Rightarrow> (Some (''failed to get scan result: '' @ err), st)
      | Inr scanResult \<Rightarrow>
          if Status scanResult \<noteq> ScanStatusPending \<and> Status scanResult \<noteq> ScanStatusRunning
          then (Some (''scan cannot be cancelled, current status: '' @ Status scanResult), st)
          else
            (case ScanRepo_UpdateStatus fault_write now scanID ScanStatusCancelled
                    ''Cancelled by user'' st of
               (Some err, st) \<Rightarrow> (Some (''failed to cancel scan: '' @ err), st)
             | (None, st) \<Rightarrow> (None, st)))"

section \<open>Notions used to state the properties\<close>



text \<open>The matches of a snapshot on a normalized name, in snapshot order, with their scores.\<close>

definition matches_of :: "Classifier \<Rightarrow> string \<Rightarrow> match list" where
  "matches_of c n =
     map (\<lambda>p. (p, calculateConfidenceScore n p))
       (filter (\<lambda>p. MatchString (regex p) n) (patterns c))"


definition compile_error :: "string \<Rightarrow> string \<Rightarrow> string" where
  "compile_error pat err =
     ''failed to compile regex pattern '' @ [CHR 0x27] @ pat @ [CHR 0x27] @ '': '' @ err"


section \<open>Concrete inputs\<close>

text \<open>
  \<open>regexp.Compile\<close> on the pattern texts of the runs below: \<open>(\<close> is rejected,
  \<open>.*\<close> and texts without metacharacters compile to the expressions given above.
\<close>

definition compile_sample :: regexp_Compile where
  "compile_sample pat =
     (if pat = ''('' then Inl ''error parsing regexp: missing closing ): `(`''
      else if pat = ''.*'' then Inr rx_dot_star
      else Inr (rx_literal pat))"

definition rule :: "InformationType \<Rightarrow> string \<Rightarrow> int \<Rightarrow> ClassificationPattern" where
  "rule t pat prio =
     \<lparr>cp_ID = 0, cp_InformationType = t, cp_Pattern = pat, cp_Description = [],
      cp_Priority = prio, cp_IsActive = True, cp_CreatedAt = 0, cp_UpdatedAt = 0\<rparr>"

definition compiled :: "InformationType \<Rightarrow> string \<Rightarrow> int \<Rightarrow> Pattern" where
  "compiled t pat prio =
     \<lparr>InformationType = t, Pattern = pat, Description = [], Priority = prio,
      regex = rx_literal pat\<rparr>"



text \<open>A snapshot with one rule, and one whose only rule carries the type \<open>N/A\<close>.\<close>

definition ssn_snapshot :: Classifier where
  "ssn_snapshot = \<lparr>patterns = [compiled InfoTypeSSN ''ssn'' 90]\<rparr>"

definition na_snapshot :: Classifier where
  "na_snapshot = \<lparr>patterns = [compiled InfoTypeNA ''tmp'' 10]\<rparr>"

definition any_snapshot :: Classifier where
  "any_snapshot = \<lparr>patterns =
     [\<lparr>InformationType = InfoTypeFullName, Pattern = ''.*'', Description = [],
       Priority = 50, regex = rx_dot_star\<rparr>]\<rparr>"

text \<open>Three rules, the second with a pattern text that does not compile, and a service
  whose matcher is the one-rule snapshot.\<close>

definition bad_rules :: "ClassificationPattern list" where
  "bad_rules = [rule InfoTypeSSN ''ssn'' 90, rule InfoTypeEmailAddress ''('' 80,
                rule InfoTypePhoneNumber ''phone'' 70]"

definition ssn_service :: ClassificationService where
  "ssn_service = \<lparr>matcher = Some ssn_snapshot\<rparr>"

text \<open>
  For the scan service: a connection record, a stored scan with a given status and the
  state that holds both, and the state before any scan. In \<open>refused_world\<close> the scanned
  server refuses the connection; in \<open>down_world\<close> the metadata database, moreover, fails
  after the scan record was created. \<open>sample_history\<close> is a store that has as many scans
  as are asked for.
\<close>

definition sample_conn :: DatabaseConnection where
  "sample_conn =
     \<lparr>dc_ID = 7, Host = ''db.internal'', Port = 3306, Username = ''scanner'',
      EncryptedPassword = ''c2VjcmV0'', DatabaseName = [], dc_Description = [],
      CreatedAt = 0, UpdatedAt = 0, LastScannedAt = None, IsActive = True\<rparr>"

definition sample_scan :: "ScanStatus \<Rightarrow> ScanResult" where
  "sample_scan status =
     \<lparr>sr_ID = 1, DatabaseID = 7, StartedAt = 100, CompletedAt = None, Status = status,
      ErrorMessage = [], Schemas = [],
      Summary = \<lparr>TotalSchemas = 0, TotalTables = 0, TotalColumns = 0,
                 ClassifiedColumns = 0, InformationTypesCounts = [],
                 RiskLevel = [], DurationMilliseconds = 0\<rparr>\<rparr>"

definition sample_system :: "ScanStatus \<Rightarrow> System" where
  "sample_system status =
     \<lparr>scan_results = [1 \<mapsto> sample_scan status],
      database_connections = [7 \<mapsto> sample_conn], target_sessions = 0\<rparr>"





definition sample_history :: "UUID \<Rightarrow> int \<Rightarrow> string + ScanResult list" where
  "sample_history databaseID limit =
     Inr (replicate (nat limit) (sample_scan ScanStatusCompleted))"

section \<open>Lemmas on the library functions\<close>


lemma ToLower_Nil: "ToLower [] = []"
  by (simp add: ToLower_def)

lemma set_insert_late: "set (insert_late lt x ys) = insert x (set ys)"
  by (induction ys) auto

lemma set_insert_early: "set (insert_early lt x ys) = insert x (set ys)"
  by (induction ys) auto

lemma mset_insert_late: "mset (insert_late lt x ys) = add_mset x (mset ys)"
  by (induction ys) auto

lemma mset_insert_early: "mset (insert_early lt x ys) = add_mset x (mset ys)"
  by (induction ys) auto

lemma sorted_insert_late:
  assumes "strict_weak_order lt" "sorted_wrt (\<lambda>a b. \<not> lt b a) ys"
  shows "sorted_wrt (\<lambda>a b. \<not> lt b a) (insert_late lt x ys)"
  using assms(2)
proof (induction ys)
  case Nil
  then show ?case by simp
next
  case (Cons y ys)
  have asym: "\<not> lt b a" if "lt a b" for a b
    using assms(1) that unfolding strict_weak_order_def by blast
  have trans: "lt a c" if "lt a b" "lt b c" for a b c
    using assms(1) that unfolding strict_weak_order_def by blast
  from Cons.prems have tail: "\<forall>z \<in> set ys. \<not> lt z y" and srt: "sorted_wrt (\<lambda>a b. \<not> lt b a) ys"
    by simp_all
  show ?case
  proof (cases "lt x y")
    case True
    have "\<not> lt z x" if "z \<in> set (y # ys)" for z
    proof (cases "z = y")
      case True
      then show ?thesis using asym [OF \<open>lt x y\<close>] by simp
    next
      case False
      with that have "\<not> lt z y" using tail by simp
      then show ?thesis using trans [of z x y] \<open>lt x y\<close> by blast
    qed
    then have "\<forall>z \<in> set (y # ys). \<not> lt z x" by blast
    then show ?thesis using True Cons.prems by simp
  next
    case False
    have "sorted_wrt (\<lambda>a b. \<not> lt b a) (insert_late lt x ys)"
      by (rule Cons.IH [OF srt])
    moreover have "\<forall>z \<in> set (insert_late lt x ys). \<not> lt z y"
      using tail False by (simp add: set_insert_late)
    ultimately show ?thesis using False by simp
  qed
qed

lemma sorted_insert_early:
  assumes "strict_weak_order lt" "sorted_wrt (\<lambda>a b. \<not> lt b a) ys"
  shows "sorted_wrt (\<lambda>a b. \<not> lt b a) (insert_early lt x ys)"
  using assms(2)
proof (induction ys)
  case Nil
  then show ?case by simp
next
  case (Cons y ys)
  have asym: "\<not> lt b a" if "lt a b" for a b
    using assms(1) that unfolding strict_weak_order_def by blast
  have ntrans: "\<not> lt a c" if "\<not> lt a b" "\<not> lt b c" for a b c
    using assms(1) that unfolding strict_weak_order_def by blast
  from Cons.prems have tail: "\<forall>z \<in> set ys. \<not> lt z y" and srt: "sorted_wrt (\<lambda>a b. \<not> lt b a) ys"
    by simp_all
  show ?case
  proof (cases "lt y x")
    case True
    have "sorted_wrt (\<lambda>a b. \<not> lt b a) (insert_early lt x ys)"
      by (rule Cons.IH [OF srt])
    moreover have "\<forall>z \<in> set (insert_early lt x ys). \<not> lt z y"
      using tail asym [OF True] by (simp add: set_insert_early)
    ultimately show ?thesis using True by simp
  next
    case False
    have "\<not> lt z x" if "z \<in> set (y # ys)" for z
    proof (cases "z = y")
      case True
      then show ?thesis using False by simp
    next
      case neq: False
      with that have "\<not> lt z y" using tail by simp
      then show ?thesis using ntrans [of z y x] False by blast
    qed
    then have "\<forall>z \<in> set (y # ys). \<not> lt z x" by blast
    then show ?thesis using False Cons.prems by simp
  qed
qed

lemma foldl_insert_late:
  assumes "strict_weak_order lt" "sorted_wrt (\<lambda>a b. \<not> lt b a) acc"
  shows "mset (foldl (\<lambda>acc x. insert_late lt x acc) acc xs) = mset acc + mset xs
       \<and> sorted_wrt (\<lambda>a b. \<not> lt b a) (foldl (\<lambda>acc x. insert_late lt x acc) acc xs)"
  using assms(2)
proof (induction xs arbitrary: acc)
  case Nil
  then show ?case by simp
next
  case (Cons x xs)
  have "sorted_wrt (\<lambda>a b. \<not> lt b a) (insert_late lt x acc)"
    by (rule sorted_insert_late [OF assms(1) Cons.prems])
  from Cons.IH [OF this] show ?case
    by (simp add: mset_insert_late)
qed

lemma foldl_insert_early:
  assumes "strict_weak_order lt" "sorted_wrt (\<lambda>a b. \<not> lt b a) acc"
  shows "mset (foldl (\<lambda>acc x. insert_early lt x acc) acc xs) = mset acc + mset xs
       \<and> sorted_wrt (\<lambda>a b. \<not> lt b a) (foldl (\<lambda>acc x. insert_early lt x acc) acc xs)"
  using assms(2)
proof (induction xs arbitrary: acc)
  case Nil
  then show ?case by simp
next
  case (Cons x xs)
  have "sorted_wrt (\<lambda>a b. \<not> lt b a) (insert_early lt x acc)"
    by (rule sorted_insert_early [OF assms(1) Cons.prems])
  from Cons.IH [OF this] show ?case
    by (simp add: mset_insert_early)
qed

text \<open>Both insertion sorts meet the contract of \<open>sort.Slice\<close>.\<close>

lemma insertionSort_contract: "sort_Slice_contract insertionSort"
  unfolding sort_Slice_contract_def insertionSort_def
proof (intro allI impI)
  fix lt :: "'a \<Rightarrow> 'a \<Rightarrow> bool" and xs
  assume "strict_weak_order lt"
  from foldl_insert_late [OF this, of "[]" xs]
  show "mset (foldl (\<lambda>acc x. insert_late lt x acc) [] xs) = mset xs \<and>
        sorted_wrt (\<lambda>a b. \<not> lt b a) (foldl (\<lambda>acc x. insert_late lt x acc) [] xs)"
    by simp
qed

lemma insertionSortEarly_contract: "sort_Slice_contract insertionSortEarly"
  unfolding sort_Slice_contract_def insertionSortEarly_def
proof (intro allI impI)
  fix lt :: "'a \<Rightarrow> 'a \<Rightarrow> bool" and xs
  assume "strict_weak_order lt"
  from foldl_insert_early [OF this, of "[]" xs]
  show "mset (foldl (\<lambda>acc x. insert_early lt x acc) [] xs) = mset xs \<and>
        sorted_wrt (\<lambda>a b. \<not> lt b a) (foldl (\<lambda>acc x. insert_early lt x acc) [] xs)"
    by simp
qed

lemma strict_weak_order_key:
  "strict_weak_order (\<lambda>a b. (key a :: 'k :: linorder) > key b)"
  unfolding strict_weak_order_def by auto

lemma contract_key:
  assumes "sort_Slice_contract srt"
  shows "mset (srt (\<lambda>a b. (key a :: 'k :: linorder) > key b) xs) = mset xs"
    and "sorted_wrt (\<lambda>a b. key a \<ge> key b) (srt (\<lambda>a b. key a > key b) xs)"
proof -
  have *: "mset (srt (\<lambda>a b. key a > key b) xs) = mset xs \<and>
        sorted_wrt (\<lambda>a b. \<not> key b > key a) (srt (\<lambda>a b. key a > key b) xs)"
    using assms strict_weak_order_key [of key]
    unfolding sort_Slice_contract_def by blast
  show "mset (srt (\<lambda>a b. key a > key b) xs) = mset xs" using * by simp
  have "(\<lambda>a b. \<not> key b > key a) = (\<lambda>a b. key a \<ge> key b)"
    by (intro ext) auto
  then show "sorted_wrt (\<lambda>a b. key a \<ge> key b) (srt (\<lambda>a b. key a > key b) xs)"
    using * by simp
qed

section \<open>Lemmas on the classifier\<close>



lemma collect_matches_eq:
  "collect_matches ps n acc =
     acc @ map (\<lambda>p. (p, calculateConfidenceScore n p))
              (filter (\<lambda>p. MatchString (regex p) n) ps)"
  by (induction ps arbitrary: acc) auto

lemma ClassifyColumn_matches:
  assumes "columnName \<noteq> []" "matches_of c (ToLower (TrimSpace columnName)) \<noteq> []"
  shows "ClassifyColumn srt c columnName =
     (let sorted = srt (\<lambda>a b. snd a > snd b) (matches_of c (ToLower (TrimSpace columnName)))
      in \<lparr>mr_InformationType = InformationType (fst (sorted ! 0)),
          ConfidenceScore = snd (sorted ! 0),
          MatchedPatterns = map (\<lambda>m. Pattern (fst m)) sorted\<rparr>)"
  using assms by (simp add: ClassifyColumn_def Let_def collect_matches_eq matches_of_def)

lemma ClassifyColumn_noMatch:
  assumes "columnName = [] \<or> matches_of c (ToLower (TrimSpace columnName)) = []"
  shows "ClassifyColumn srt c columnName = noMatch"
  using assms by (auto simp: ClassifyColumn_def Let_def collect_matches_eq matches_of_def)

lemma ClassifyColumn_sorted:
  assumes "sort_Slice_contract srt" and "columnName \<noteq> []"
    and "matches_of c (ToLower (TrimSpace columnName)) \<noteq> []"
  obtains sorted where
    "mset sorted = mset (matches_of c (ToLower (TrimSpace columnName)))"
    "sorted_wrt (\<lambda>a b. snd a \<ge> snd b) sorted"
    "sorted \<noteq> []"
    "ClassifyColumn srt c columnName =
       \<lparr>mr_InformationType = InformationType (fst (hd sorted)),
        ConfidenceScore = snd (hd sorted),
        MatchedPatterns = map (\<lambda>m. Pattern (fst m)) sorted\<rparr>"
proof -
  define ms where "ms = matches_of c (ToLower (TrimSpace columnName))"
  define sorted where "sorted = srt (\<lambda>a b. snd a > snd b) ms"
  have perm: "mset sorted = mset ms"
    unfolding sorted_def by (rule contract_key(1) [OF assms(1)])
  have srtd: "sorted_wrt (\<lambda>a b. snd a \<ge> snd b) sorted"
    unfolding sorted_def by (rule contract_key(2) [OF assms(1)])
  have ne: "sorted \<noteq> []"
    using perm assms(3) ms_def by (metis mset_zero_iff)
  then have hd0: "sorted ! 0 = hd sorted"
    by (simp add: hd_conv_nth)
  have res: "ClassifyColumn srt c columnName =
       \<lparr>mr_InformationType = InformationType (fst (hd sorted)),
        ConfidenceScore = snd (hd sorted),
        MatchedPatterns = map (\<lambda>m. Pattern (fst m)) sorted\<rparr>"
    using ClassifyColumn_matches [OF assms(2,3), of srt] hd0
    by (simp add: Let_def sorted_def ms_def)
  show thesis
    using that [of sorted] perm srtd ne res unfolding ms_def by blast
qed


lemma compile_loop_first_invalid:
  assumes "\<forall>q \<in> set pre. \<not> isl (rc (cp_Pattern q))" and "rc (cp_Pattern p) = Inl msg"
  shows "compile_loop rc (pre @ p # post) acc = Inl (compile_error (cp_Pattern p) msg)"
  using assms(1)
proof (induction pre arbitrary: acc)
  case Nil
  then show ?case using assms(2) by (simp add: compile_error_def)
next
  case (Cons q qs)
  then obtain re where re: "rc (cp_Pattern q) = Inr re"
    by (cases "rc (cp_Pattern q)") auto
  with Cons show ?case by simp
qed


section \<open>Lemmas on the scan service\<close>










lemma Update_cases:
  "ScanRepo_Update fault result st = (err, st') \<Longrightarrow>
     (err \<noteq> None \<and> st' = st) \<or>
     (err = None \<and> st' = st\<lparr>scan_results := (scan_results st)(sr_ID result \<mapsto> result)\<rparr>)"
  by (auto simp: ScanRepo_Update_def split: option.splits)

lemma LastScanned_keeps:
  "target_sessions (snd (ConnRepo_UpdateLastScannedAt fault now rid t st)) = target_sessions st \<and>
   scan_results (snd (ConnRepo_UpdateLastScannedAt fault now rid t st)) = scan_results st"
  by (simp add: ConnRepo_UpdateLastScannedAt_def split: option.splits)







section \<open>Properties of the classifier\<close>

text \<open>
  C1 (as the code has it). On the empty string \<open>ClassifyColumn\<close> returns
  \<open>{N/A, 0.0, []}\<close> whatever the snapshot and the sort: the test comes before any pattern
  is looked at. The test is on the name as given, before it is trimmed. A name that is
  not empty but trims to the empty string is classified like any other name, against the
  empty string; it gets \<open>{N/A, 0.0, []}\<close> when no pattern of the snapshot matches the
  empty string.
\<close>

theorem ClassifyColumn_empty:
  "ClassifyColumn srt c [] = noMatch \<and>
   (TrimSpace name = [] \<and> (\<forall>p \<in> set (patterns c). \<not> MatchString (regex p) [])
      \<longrightarrow> ClassifyColumn srt c name = noMatch)"
  by (auto simp: ClassifyColumn_def Let_def ToLower_Nil collect_matches_eq filter_empty_conv)

theorem ClassifyColumn_empty_witness:
  "TrimSpace ''   '' = [] \<and>
   list_all (\<lambda>p. \<not> MatchString (regex p) []) (patterns ssn_snapshot) \<and>
   ClassifyColumn insertionSort ssn_snapshot [] = noMatch \<and>
   ClassifyColumn insertionSort ssn_snapshot ''   '' = noMatch"
proof -
  have t: "TrimSpace ''   '' = []"
    by (simp add: TrimSpace_def isSpace_def)
  have n: "\<forall>p \<in> set (patterns ssn_snapshot). \<not> MatchString (regex p) []"
    by (simp add: ssn_snapshot_def compiled_def MatchString_def rx_literal_def)
  show ?thesis
    using ClassifyColumn_empty [of insertionSort ssn_snapshot "''   ''"] t n
    by (simp add: list_all_iff)
qed

text \<open>
  C1 as stated fails: with a snapshot whose one rule is \<open>.*\<close> (priority 50), which matches
  the empty string, the name of three spaces trims to the empty string and is classified
  with score 0.5 + 0.2.
\<close>

theorem ClassifyColumn_blank_counterexample:
  "TrimSpace ''   '' = [] \<and>
   ClassifyColumn insertionSort any_snapshot ''   '' =
     \<lparr>mr_InformationType = InfoTypeFullName, ConfidenceScore = 7 / 10,
      MatchedPatterns = [''.*'']\<rparr>"
  by (simp add: ClassifyColumn_def Let_def TrimSpace_def isSpace_def ToLower_def
      MatchString_def FindString_def rx_dot_star_def calculateConfidenceScore_def
      commonWords_def insertionSort_def any_snapshot_def)






text \<open>
  C5. When at least one rule of the sequence has a pattern text that does not compile,
  \<open>SetPatterns\<close> and \<open>refreshClassifier\<close> return the compile error that names the
  first such pattern, and leave the classifier and the service as they were: no snapshot
  is published, and every later \<open>ClassifyColumn\<close> answers as before.
\<close>

theorem failed_reload:
  assumes "\<exists>p \<in> set pats. isl (rc (cp_Pattern p))"
  shows "\<exists>pre p post msg.
           pats = pre @ p # post \<and>
           (\<forall>q \<in> set pre. \<not> isl (rc (cp_Pattern q))) \<and>
           rc (cp_Pattern p) = Inl msg \<and>
           SetPatterns srt rc c pats = (Some (compile_error (cp_Pattern p) msg), c) \<and>
           refreshClassifier srt rc s pats =
             (Some (''failed to prepare classifier: '' @ compile_error (cp_Pattern p) msg), s) \<and>
           (\<forall>srtM name.
              service_ClassifyColumn srtM (snd (refreshClassifier srt rc s pats)) name
                = service_ClassifyColumn srtM s name \<and>
              ClassifyColumn srtM (snd (SetPatterns srt rc c pats)) name
                = ClassifyColumn srtM c name)"
proof -
  from split_list_first_prop [OF assms] obtain pre p post where
    dec: "pats = pre @ p # post" and bad: "isl (rc (cp_Pattern p))" and
    good: "\<forall>q \<in> set pre. \<not> isl (rc (cp_Pattern q))"
    by blast
  from bad obtain msg where msg: "rc (cp_Pattern p) = Inl msg"
    by (cases "rc (cp_Pattern p)") auto
  have loop: "compile_loop rc pats acc = Inl (compile_error (cp_Pattern p) msg)" for acc
    unfolding dec by (rule compile_loop_first_invalid [OF good msg])
  have sp: "SetPatterns srt rc c' pats = (Some (compile_error (cp_Pattern p) msg), c')" for c'
    by (simp add: SetPatterns_def loop)
  have rf: "refreshClassifier srt rc s pats =
      (Some (''failed to prepare classifier: '' @ compile_error (cp_Pattern p) msg), s)"
    by (simp add: refreshClassifier_def NewClassifier_def sp)
  have same: "\<forall>srtM name.
      service_ClassifyColumn srtM (snd (refreshClassifier srt rc s pats)) name
        = service_ClassifyColumn srtM s name \<and>
      ClassifyColumn srtM (snd (SetPatterns srt rc c pats)) name = ClassifyColumn srtM c name"
    by (simp add: sp rf)
  from dec good msg sp rf same show ?thesis by blast
qed

theorem failed_reload_witness:
  "list_ex (\<lambda>p. isl (compile_sample (cp_Pattern p))) bad_rules \<and>
   refreshClassifier insertionSort compile_sample ssn_service bad_rules =
     (Some (''failed to prepare classifier: '' @
            compile_error ''('' ''error parsing regexp: missing closing ): `(`''), ssn_service) \<and>
   SetPatterns insertionSort compile_sample ssn_snapshot bad_rules =
     (Some (compile_error ''('' ''error parsing regexp: missing closing ): `(`''), ssn_snapshot)"
proof -
  have ex: "\<exists>p \<in> set bad_rules. isl (compile_sample (cp_Pattern p))"
    by (simp add: bad_rules_def rule_def compile_sample_def)
  from failed_reload [OF ex, of insertionSort ssn_snapshot ssn_service]
  obtain pre p post msg where
    dec: "bad_rules = pre @ p # post" and
    good: "\<forall>q \<in> set pre. \<not> isl (compile_sample (cp_Pattern q))" and
    msg: "compile_sample (cp_Pattern p) = Inl msg" and
    sp: "SetPatterns insertionSort compile_sample ssn_snapshot bad_rules =
           (Some (compile_error (cp_Pattern p) msg), ssn_snapshot)" and
    rf: "refreshClassifier insertionSort compile_sample ssn_service bad_rules =
           (Some (''failed to prepare classifier: '' @ compile_error (cp_Pattern p) msg),
            ssn_service)"
    by blast
  have "p \<in> set bad_rules" using dec by (metis in_set_conv_decomp)
  with msg have p: "cp_Pattern p = ''(''"
    by (auto simp: bad_rules_def rule_def compile_sample_def split: if_splits)
  with msg have m: "msg = ''error parsing regexp: missing closing ): `(`''"
    by (simp add: compile_sample_def)
  show ?thesis using ex sp rf p m by (simp add: list_ex_iff)
qed




text \<open>
  C9 (as the code has it). With a \<open>sort.Slice\<close> that meets its contract: when
  \<open>matchedPatterns\<close> is empty the result is \<open>{N/A, 0.0, []}\<close>; when the name is empty or
  no pattern matches (an empty rule set among the cases) the result is \<open>{N/A, 0.0, []}\<close>;
  and when the type of the result is \<open>N/A\<close>, either \<open>matchedPatterns\<close> is empty or a
  matching rule of the snapshot itself carries the type \<open>N/A\<close>.
\<close>

theorem ClassifyColumn_na:
  assumes "sort_Slice_contract srt"
  shows "(MatchedPatterns (ClassifyColumn srt c columnName) = []
            \<longrightarrow> ClassifyColumn srt c columnName = noMatch) \<and>
         (columnName = [] \<or> matches_of c (ToLower (TrimSpace columnName)) = []
            \<longrightarrow> ClassifyColumn srt c columnName = noMatch) \<and>
         (mr_InformationType (ClassifyColumn srt c columnName) = InfoTypeNA
            \<longrightarrow> MatchedPatterns (ClassifyColumn srt c columnName) = [] \<or>
                (\<exists>p \<in> set (patterns c). InformationType p = InfoTypeNA \<and>
                   MatchString (regex p) (ToLower (TrimSpace columnName))))"
proof (cases "columnName = [] \<or> matches_of c (ToLower (TrimSpace columnName)) = []")
  case True
  then have "ClassifyColumn srt c columnName = noMatch"
    by (rule ClassifyColumn_noMatch)
  then show ?thesis by (simp add: noMatch_def)
next
  case False
  then have ne: "columnName \<noteq> []" "matches_of c (ToLower (TrimSpace columnName)) \<noteq> []"
    by auto
  from ClassifyColumn_sorted [OF assms ne] obtain sorted where
    perm: "mset sorted = mset (matches_of c (ToLower (TrimSpace columnName)))" and
    sne: "sorted \<noteq> []" and
    res: "ClassifyColumn srt c columnName =
       \<lparr>mr_InformationType = InformationType (fst (hd sorted)),
        ConfidenceScore = snd (hd sorted),
        MatchedPatterns = map (\<lambda>m. Pattern (fst m)) sorted\<rparr>"
    by blast
  have "hd sorted \<in> set (matches_of c (ToLower (TrimSpace columnName)))"
    using perm sne by (metis hd_in_set set_mset_mset)
  then have win: "fst (hd sorted) \<in> set (patterns c) \<and>
      MatchString (regex (fst (hd sorted))) (ToLower (TrimSpace columnName))"
    by (auto simp: matches_of_def)
  have m: "MatchedPatterns (ClassifyColumn srt c columnName) \<noteq> []"
    using res sne by simp
  have t: "mr_InformationType (ClassifyColumn srt c columnName) = InformationType (fst (hd sorted))"
    using res by simp
  show ?thesis
  proof (intro conjI impI)
    assume "MatchedPatterns (ClassifyColumn srt c columnName) = []"
    with m show "ClassifyColumn srt c columnName = noMatch" by simp
  next
    assume "columnName = [] \<or> matches_of c (ToLower (TrimSpace columnName)) = []"
    with False show "ClassifyColumn srt c columnName = noMatch" by simp
  next
    assume "mr_InformationType (ClassifyColumn srt c columnName) = InfoTypeNA"
    with t have "InformationType (fst (hd sorted)) = InfoTypeNA" by simp
    with win show "MatchedPatterns (ClassifyColumn srt c columnName) = [] \<or>
        (\<exists>p \<in> set (patterns c). InformationType p = InfoTypeNA \<and>
           MatchString (regex p) (ToLower (TrimSpace columnName)))"
      by blast
  qed
qed

theorem ClassifyColumn_na_witness:
  "sort_Slice_contract (insertionSort :: match sort_Slice) \<and>
   matches_of ssn_snapshot (ToLower (TrimSpace ''created_at'')) = [] \<and>
   ClassifyColumn insertionSort ssn_snapshot ''created_at'' = noMatch \<and>
   ClassifyColumn insertionSort \<lparr>patterns = []\<rparr> ''user_ssn'' = noMatch"
proof -
  have e: "matches_of ssn_snapshot (ToLower (TrimSpace ''created_at'')) = []"
    by (simp add: matches_of_def ssn_snapshot_def compiled_def MatchString_def
      rx_literal_def TrimSpace_def isSpace_def ToLower_def toLowerByte_def)
  have e2: "matches_of \<lparr>patterns = []\<rparr> (ToLower (TrimSpace ''user_ssn'')) = []"
    by (simp add: matches_of_def)
  have r1: "ClassifyColumn insertionSort ssn_snapshot ''created_at'' = noMatch"
    using ClassifyColumn_na [OF insertionSort_contract, of ssn_snapshot "''created_at''"] e
    by blast
  have r2: "ClassifyColumn insertionSort \<lparr>patterns = []\<rparr> ''user_ssn'' = noMatch"
    using ClassifyColumn_na [OF insertionSort_contract, of "\<lparr>patterns = []\<rparr>" "''user_ssn''"] e2
    by blast
  show ?thesis
    using r1 r2 e insertionSort_contract by blast
qed

text \<open>
  C9 as stated fails from left to right: a rule may carry the type \<open>N/A\<close>, and when it
  wins, the type of the result is \<open>N/A\<close> while \<open>matchedPatterns\<close> is not empty.
\<close>

theorem ClassifyColumn_na_counterexample:
  "ClassifyColumn insertionSort na_snapshot ''tmp_col'' =
     \<lparr>mr_InformationType = InfoTypeNA, ConfidenceScore = 2 / 10, MatchedPatterns = [''tmp'']\<rparr>"
  by code_simp

section \<open>Properties of the scan service\<close>



text \<open>
  C7. For a stored scan that the store reads back: when its status is neither Pending
  nor Running, \<open>CancelScan\<close> returns the invalid-state error, attempts no write and leaves
  the state as it was; when its status is Pending or Running, \<open>CancelScan\<close> writes the
  status Cancelled with the message \<open>Cancelled by user\<close> (and the time of the write), or,
  when the driver fails on that write, returns its error and leaves the state as it was.
\<close>

theorem CancelScan_states:
  assumes "scan_results st scanID = Some row"
  shows "(Status row \<noteq> ScanStatusPending \<and> Status row \<noteq> ScanStatusRunning \<longrightarrow>
            CancelScan None fault_write now scanID st =
              (Some (''scan cannot be cancelled, current status: '' @ Status row), st)) \<and>
         (Status row = ScanStatusPending \<or> Status row = ScanStatusRunning \<longrightarrow>
            CancelScan None None now scanID st =
              (None, st\<lparr>scan_results := (scan_results st)
                 (scanID \<mapsto> row\<lparr>Status := ScanStatusCancelled, CompletedAt := Some now,
                                   ErrorMessage := ''Cancelled by user''\<rparr>)\<rparr>) \<and>
            CancelScan None (Some err) now scanID st =
              (Some (''failed to cancel scan: failed to update scan status: '' @ err), st))"
  using assms
  by (auto simp: CancelScan_def ScanRepo_GetByID_def ScanRepo_UpdateStatus_def Let_def
      ScanStatusCancelled_def)

theorem CancelScan_states_witness:
  "scan_results (sample_system ScanStatusCompleted) 1 = Some (sample_scan ScanStatusCompleted) \<and>
   CancelScan None None 200 1 (sample_system ScanStatusCompleted) =
     (Some ''scan cannot be cancelled, current status: completed'',
      sample_system ScanStatusCompleted) \<and>
   scan_results (sample_system ScanStatusRunning) 1 = Some (sample_scan ScanStatusRunning) \<and>
   fst (CancelScan None None 200 1 (sample_system ScanStatusRunning)) = None \<and>
   map_option (\<lambda>r. (Status r, CompletedAt r, ErrorMessage r))
     (scan_results (snd (CancelScan None None 200 1 (sample_system ScanStatusRunning))) 1) =
     Some (ScanStatusCancelled, Some 200, ''Cancelled by user'')"
proof -
  have r1: "scan_results (sample_system ScanStatusCompleted) 1 =
      Some (sample_scan ScanStatusCompleted)"
    by (simp add: sample_system_def)
  have r2: "scan_results (sample_system ScanStatusRunning) 1 =
      Some (sample_scan ScanStatusRunning)"
    by (simp add: sample_system_def)
  have s1: "Status (sample_scan ScanStatusCompleted) \<noteq> ScanStatusPending \<and>
      Status (sample_scan ScanStatusCompleted) \<noteq> ScanStatusRunning"
    by (simp add: sample_scan_def ScanStatusCompleted_def ScanStatusPending_def
        ScanStatusRunning_def)
  have c1: "CancelScan None None 200 1 (sample_system ScanStatusCompleted) =
     (Some ''scan cannot be cancelled, current status: completed'',
      sample_system ScanStatusCompleted)"
    using CancelScan_states [OF r1, of None 200] s1
    by (simp add: sample_scan_def ScanStatusCompleted_def)
  have s2: "Status (sample_scan ScanStatusRunning) = ScanStatusRunning"
    by (simp add: sample_scan_def)
  have c2: "CancelScan None None 200 1 (sample_system ScanStatusRunning) =
      (None, (sample_system ScanStatusRunning)\<lparr>scan_results :=
         (scan_results (sample_system ScanStatusRunning))
           (1 \<mapsto> (sample_scan ScanStatusRunning)\<lparr>Status := ScanStatusCancelled,
              CompletedAt := Some 200, ErrorMessage := ''Cancelled by user''\<rparr>)\<rparr>)"
    using CancelScan_states [OF r2, of None 200] s2 by simp
  have c3: "fst (CancelScan None None 200 1 (sample_system ScanStatusRunning)) = None \<and>
    map_option (\<lambda>r. (Status r, CompletedAt r, ErrorMessage r))
     (scan_results (snd (CancelScan None None 200 1 (sample_system ScanStatusRunning))) 1) =
     Some (ScanStatusCancelled, Some 200, ''Cancelled by user'')"
    unfolding c2 by simp
  from r1 c1 r2 c3 show ?thesis by (intro conjI) simp_all
qed




text \<open>
  C10. For every database id and every store, \<open>GetScanHistory\<close> called with a limit of 0
  or less asks the store for 10 results, and called with a positive limit asks it for
  that many; the store's error comes back wrapped, its results unchanged.
\<close>

theorem GetScanHistory_limit:
  "(limit \<le> 0 \<longrightarrow>
      GetScanHistory store databaseID limit =
        (case store databaseID 10 of
           Inl err \<Rightarrow> Inl (''failed to get scan history: '' @ err)
         | Inr results \<Rightarrow> Inr results)) \<and>
   (limit > 0 \<longrightarrow>
      GetScanHistory store databaseID limit =
        (case store databaseID limit of
           Inl err \<Rightarrow> Inl (''failed to get scan history: '' @ err)
         | Inr results \<Rightarrow> Inr results))"
  by (simp add: GetScanHistory_def Let_def)

theorem GetScanHistory_limit_witness:
  "(0 :: int) \<le> 0 \<and>
   GetScanHistory sample_history 7 0 = Inr (replicate 10 (sample_scan ScanStatusCompleted)) \<and>
   (- 3 :: int) \<le> 0 \<and>
   GetScanHistory sample_history 7 (- 3) = Inr (replicate 10 (sample_scan ScanStatusCompleted)) \<and>
   (3 :: int) > 0 \<and>
   GetScanHistory sample_history 7 3 = Inr (replicate 3 (sample_scan ScanStatusCompleted))"
  using GetScanHistory_limit [of 0 sample_history 7]
    GetScanHistory_limit [of "- 3" sample_history 7]
    GetScanHistory_limit [of 3 sample_history 7]
  by (simp add: sample_history_def)

end
